theory Spec2Isabelle
  imports Complex_Main "HOL-Library.Word"
begin

unbundle bit_operations_syntax

section \<open>Exceptions and decode failures\<close>

text \<open>
  The Python exceptions the modelled functions can raise, one constructor per
  \<^verbatim>\<open>raise\<close> site (or raising library call):
  \<^item> \<open>BitsNot40 n\<close>: \<^verbatim>\<open>ValueError('list of bits not equal to 40: %d' % len(bits))\<close>
    in \<^verbatim>\<open>bits_to_bytes\<close>;
  \<^item> \<open>InvalidLiteral s\<close>: the \<^verbatim>\<open>ValueError\<close> of \<^verbatim>\<open>int(s, 2)\<close> on a string that
    is not a base-2 literal;
  \<^item> \<open>NotInList\<close>: the \<^verbatim>\<open>ValueError\<close> of \<^verbatim>\<open>list.remove(x)\<close> when \<open>x\<close> is absent;
  \<^item> \<open>NoDataRemains\<close>: \<^verbatim>\<open>ValueError('No data remains in history.')\<close> in
    \<^verbatim>\<open>Channel.add_data\<close>;
  \<^item> \<open>QueueFull\<close>: \<^verbatim>\<open>Queue.Full\<close>, re-raised by \<^verbatim>\<open>Channel.add_data\<close>;
  \<^item> \<open>OnlyReady k n\<close>: \<^verbatim>\<open>ValueError('Only %d channels ready (out of %d) after
    waiting %s seconds.')\<close> in \<^verbatim>\<open>collect_data\<close>;
  \<^item> \<open>UnboundLocal\<close>: reading \<^verbatim>\<open>count_ready\<close> before the readiness loop has
    assigned it.
\<close>

datatype py_exception =
    BitsNot40 nat
  | InvalidLiteral string
  | NotInList
  | NoDataRemains
  | QueueFull
  | OnlyReady nat nat
  | UnboundLocal

text \<open>
  \<^verbatim>\<open>read_dht22_single\<close> reports a failed read by returning \<^verbatim>\<open>(None, msg)\<close>. The
  four messages are the four failures:
  \<^item> \<open>NoResponse\<close>: \<^verbatim>\<open>first is None\<close> (the message is whatever the capture returned);
  \<^item> \<open>MalformedStart\<close>: \<^verbatim>\<open>'Fail first != 1'\<close>;
  \<^item> \<open>ChecksumMismatch\<close>: \<^verbatim>\<open>'Fail checksum'\<close>;
  \<^item> \<open>WrongLength n\<close>: \<^verbatim>\<open>'Fail len(bits) != 40 [%d]' % len(bits)\<close>.
  A good read returns \<^verbatim>\<open>(RH, Tc)\<close>, two floats. Python floats are modelled as
  reals. Where float arithmetic only produces a value that is returned or stored, it is
  computed exactly and its rounding is not modelled; the two float operations behind
  the decision of the outlier check are parameters (see \<open>float_ops\<close> below).
\<close>

datatype decode_failure = NoResponse | MalformedStart | ChecksumMismatch | WrongLength nat

datatype reading = Reading real real | Failed decode_failure

section \<open>Data record helpers\<close>

definition c2f :: "real \<Rightarrow> real" where
  "c2f C = C * 9 / 5 + 32"

definition f2c :: "real \<Rightarrow> real" where
  "f2c F = (F - 32) * 5 / 9"

definition compute_checksum :: "int \<Rightarrow> int \<Rightarrow> int \<Rightarrow> int \<Rightarrow> int \<Rightarrow> bool" where
  "compute_checksum byte_1 byte_2 byte_3 byte_4 byte_5 =
     (let val_sum = byte_1 + byte_2 + byte_3 + byte_4;
          val_check = val_sum AND 255
      in if val_check = byte_5 then True else False)"

subsection \<open>\<^verbatim>\<open>str(b)\<close> and \<^verbatim>\<open>int(s, 2)\<close>\<close>

text \<open>\<^verbatim>\<open>str\<close> of a Python integer: its decimal digits, with a minus sign when negative.\<close>

definition digit_char :: "nat \<Rightarrow> char" where
  "digit_char d = ''0123456789'' ! d"

fun str_nat :: "nat \<Rightarrow> string" where
  "str_nat n = (if n < 10 then [digit_char n] else str_nat (n div 10) @ [digit_char (n mod 10)])"

declare str_nat.simps [simp del]

definition str_int :: "int \<Rightarrow> string" where
  "str_int i = (if i < 0 then CHR ''-'' # str_nat (nat (- i)) else str_nat (nat i))"

text \<open>
  \<^verbatim>\<open>int(s, 2)\<close> on the strings \<^verbatim>\<open>bits_to_bytes\<close> builds (decimal digits and minus
  signs only): an optional leading minus sign, then one or more binary digits; anything
  else raises \<^verbatim>\<open>ValueError\<close>.
\<close>

fun bin_digits :: "string \<Rightarrow> int \<Rightarrow> int option" where
  "bin_digits [] acc = Some acc"
| "bin_digits (c # cs) acc =
     (if c = CHR ''0'' then bin_digits cs (2 * acc)
      else if c = CHR ''1'' then bin_digits cs (2 * acc + 1)
      else None)"

definition int_base2 :: "string \<Rightarrow> py_exception + int" where
  "int_base2 s =
     (case s of
        [] \<Rightarrow> Inl (InvalidLiteral s)
      | c # cs \<Rightarrow>
          if c = CHR ''-'' then
            (case cs of
               [] \<Rightarrow> Inl (InvalidLiteral s)
             | _ # _ \<Rightarrow> (case bin_digits cs 0 of None \<Rightarrow> Inl (InvalidLiteral s) | Some v \<Rightarrow> Inr (- v)))
          else (case bin_digits s 0 of None \<Rightarrow> Inl (InvalidLiteral s) | Some v \<Rightarrow> Inr v))"

subsection \<open>\<^verbatim>\<open>bits_to_bytes\<close>\<close>

text \<open>The slice \<^verbatim>\<open>xs[i:j]\<close> for \<open>0 \<le> i \<le> j\<close>.\<close>

definition slice :: "nat \<Rightarrow> nat \<Rightarrow> 'a list \<Rightarrow> 'a list" where
  "slice i j xs = take (j - i) (drop i xs)"

text \<open>The loop \<^verbatim>\<open>for b in bs: byte_str += str(b)\<close>, started from the empty string.\<close>

definition byte_str :: "int list \<Rightarrow> string" where
  "byte_str bs = foldl (\<lambda>s b. s @ str_int b) [] bs"

definition bits_to_bytes :: "int list \<Rightarrow> py_exception + (int \<times> int \<times> int \<times> int \<times> bool)" where
  "bits_to_bytes bits =
     (if length bits \<noteq> 40 then Inl (BitsNot40 (length bits))
      else
        (case int_base2 (byte_str (slice 0 8 bits)) of Inl e \<Rightarrow> Inl e | Inr byte_1 \<Rightarrow>
        (case int_base2 (byte_str (slice 8 16 bits)) of Inl e \<Rightarrow> Inl e | Inr byte_2 \<Rightarrow>
        (case int_base2 (byte_str (slice 16 24 bits)) of Inl e \<Rightarrow> Inl e | Inr byte_3 \<Rightarrow>
        (case int_base2 (byte_str (slice 24 32 bits)) of Inl e \<Rightarrow> Inl e | Inr byte_4 \<Rightarrow>
        (case int_base2 (byte_str (slice 32 40 bits)) of Inl e \<Rightarrow> Inl e | Inr byte_5 \<Rightarrow>
           Inr (byte_1, byte_2, byte_3, byte_4,
                compute_checksum byte_1 byte_2 byte_3 byte_4 byte_5)))))))"

subsection \<open>\<^verbatim>\<open>read_dht22_single\<close>\<close>

text \<open>
  The two results of \<^verbatim>\<open>dht22.read_bits\<close> are arguments: \<open>first\<close> is \<open>None\<close> when
  the sensor did not answer. \<^verbatim>\<open>np.left_shift(b, 8)\<close> is \<open>push_bit 8 b\<close> (the bytes of a
  frame are far from the limits of numpy's 64-bit integers, which are not modelled); the
  division by \<^verbatim>\<open>10.\<close> is real division.
\<close>

definition read_dht22_single :: "int option \<Rightarrow> int list \<Rightarrow> py_exception + reading" where
  "read_dht22_single first bits =
     (case first of
        None \<Rightarrow> Inr (Failed NoResponse)
      | Some f \<Rightarrow>
          if f \<noteq> 1 then Inr (Failed MalformedStart)
          else if length bits = 40 then
            (case bits_to_bytes bits of
               Inl e \<Rightarrow> Inl e
             | Inr (byte_1, byte_2, byte_3, byte_4, ok) \<Rightarrow>
                 if ok then
                   Inr (Reading (real_of_int (push_bit 8 byte_1 + byte_2) / 10)
                                (real_of_int (push_bit 8 byte_3 + byte_4) / 10))
                 else Inr (Failed ChecksumMismatch))
          else Inr (Failed (WrongLength (length bits))))"

section \<open>Samples, the shared queue and the channel\<close>

text \<open>
  A sample is the dictionary \<^verbatim>\<open>Channel.run\<close> builds, with exactly the keys
  \<^verbatim>\<open>'type'\<close>, \<^verbatim>\<open>'pin'\<close>, \<^verbatim>\<open>'RH'\<close>, \<^verbatim>\<open>'Tf'\<close> and \<^verbatim>\<open>'time_stamp'\<close>.
\<close>

record sample =
  type :: string
  pin :: int
  RH :: real
  Tf :: real
  time_stamp :: real

text \<open>
  \<^verbatim>\<open>Queue.Queue(maxsize)\<close> of the Python 2 standard library, seen at one instant: its
  capacity and its items, oldest first. A capacity of zero or less is unbounded.
  \<^verbatim>\<open>put(item, False)\<close> raises \<^verbatim>\<open>Queue.Full\<close> when the capacity is positive and the
  queue holds that many items; otherwise it adds the item at the end.
\<close>

record queue =
  maxsize :: int
  items :: "sample list"

definition Queue_init :: "int \<Rightarrow> queue" where
  "Queue_init n = \<lparr>maxsize = n, items = []\<rparr>"

definition full :: "queue \<Rightarrow> bool" where
  "full q = (0 < maxsize q \<and> maxsize q = int (length (items q)))"

definition put_nowait :: "queue \<Rightarrow> sample \<Rightarrow> queue option" where
  "put_nowait q x = (if full q then None else Some (q\<lparr>items := items q @ [x]\<rparr>))"

text \<open>
  The fields \<^verbatim>\<open>Channel.__init__\<close> sets. The channel's \<^verbatim>\<open>pin\<close> is \<open>chan_pin\<close>
  (the sample has a \<open>pin\<close> of its own) and \<^verbatim>\<open>_keep_running\<close> is \<open>keep_running\<close>.
  The queue is shared between threads, so it is not a field: each operation takes the
  queue as it stands when the operation reaches it.
\<close>

record channel =
  num_min_history :: nat
  check_threshold :: real
  chan_pin :: int
  time_wait :: real
  time_history :: real
  data_history :: "sample list"
  data_latest :: "sample option"
  keep_running :: bool

definition time_wait_default :: real where
  "time_wait_default = 5"

definition time_history_default :: real where
  "time_history_default = 10 * 60"

definition Channel_init :: "int \<Rightarrow> queue option \<Rightarrow> real option \<Rightarrow> real option \<Rightarrow> channel \<times> queue" where
  "Channel_init p queue_arg time_wait_arg time_history_arg =
     (let tw = (case time_wait_arg of None \<Rightarrow> time_wait_default | Some t \<Rightarrow> t);
          th = (case time_history_arg of None \<Rightarrow> time_history_default | Some t \<Rightarrow> t);
          q = (case queue_arg of None \<Rightarrow> Queue_init 0 | Some q' \<Rightarrow> q')
      in (\<lparr>num_min_history = 10, check_threshold = 25, chan_pin = p, time_wait = tw,
           time_history = th, data_history = [], data_latest = None,
           keep_running = False\<rparr>, q))"

definition stop :: "channel \<Rightarrow> channel" where
  "stop c = c\<lparr>keep_running := False\<rparr>"

subsection \<open>History eviction\<close>

text \<open>\<^verbatim>\<open>xs.remove(x)\<close>: drops the first element equal to \<open>x\<close>; \<open>None\<close> is the
  \<^verbatim>\<open>ValueError\<close> raised when there is none.\<close>

fun list_remove :: "'a \<Rightarrow> 'a list \<Rightarrow> 'a list option" where
  "list_remove x [] = None"
| "list_remove x (y # ys) =
     (if y = x then Some ys
      else (case list_remove x ys of None \<Rightarrow> None | Some zs \<Rightarrow> Some (y # zs)))"

text \<open>The loop \<^verbatim>\<open>for d in list_too_old: self.data_history.remove(d)\<close>. It returns the
  history it leaves behind, together with the exception that stopped it, if any.\<close>

fun remove_each :: "'a list \<Rightarrow> 'a list \<Rightarrow> py_exception option \<times> 'a list" where
  "remove_each [] h = (None, h)"
| "remove_each (d # ds) h =
     (case list_remove d h of
        None \<Rightarrow> (Some NotInList, h)
      | Some h' \<Rightarrow> remove_each ds h')"

text \<open>\<open>time_stamp_now\<close> is the value \<^verbatim>\<open>time.time()\<close> returns inside
  \<^verbatim>\<open>adjust_history\<close>.\<close>

definition adjust_history :: "channel \<Rightarrow> real \<Rightarrow> (py_exception + nat \<times> nat) \<times> channel" where
  "adjust_history self time_stamp_now =
     (let list_too_old =
            filter (\<lambda>d. time_stamp_now - time_stamp d > time_history self) (data_history self);
          (exc, h) = remove_each list_too_old (data_history self);
          self' = self\<lparr>data_history := h\<rparr>
      in case exc of
           Some e \<Rightarrow> (Inl e, self')
         | None \<Rightarrow> (Inr (length h, length list_too_old), self'))"

subsection \<open>Outlier check\<close>

text \<open>
  The outlier check decides by comparing the result of float arithmetic with the
  threshold, so there the rounding of the doubles matters and the two float operations
  involved are parameters: \<open>float_sub ops a b\<close> is the result of \<^verbatim>\<open>a - b\<close> on Python
  floats, and \<open>float_mean2 ops a b\<close> is the mean of the two doubles \<open>a\<close> and \<open>b\<close> as
  \<^verbatim>\<open>np.median\<close> computes it. A real number stands for the exact value of a double;
  sorting, \<^verbatim>\<open>abs\<close> and the comparison of doubles are exact.
\<close>

record float_ops =
  float_sub :: "real \<Rightarrow> real \<Rightarrow> real"
  float_mean2 :: "real \<Rightarrow> real \<Rightarrow> real"

text \<open>
  \<^verbatim>\<open>np.median\<close>: the middle element of the sorted values, or the mean of the two middle
  ones when their number is even. On an empty list numpy returns \<^verbatim>\<open>nan\<close>, here
  \<open>None\<close>; every comparison with \<^verbatim>\<open>nan\<close> is false.
\<close>

definition median :: "float_ops \<Rightarrow> real list \<Rightarrow> real option" where
  "median ops samples =
     (let s = sort samples; n = length s
      in if n = 0 then None
         else if odd n then Some (s ! (n div 2))
         else Some (float_mean2 ops (s ! (n div 2 - 1)) (s ! (n div 2))))"

definition check_data_value :: "float_ops \<Rightarrow> channel \<Rightarrow> real list \<Rightarrow> real \<Rightarrow> real" where
  "check_data_value ops self samples val =
     (case median ops samples of
        None \<Rightarrow> val
      | Some value_med \<Rightarrow>
          (let delta = \<bar>float_sub ops val value_med\<bar>
           in if delta > check_threshold self then value_med else val))"

definition check_values :: "float_ops \<Rightarrow> channel \<Rightarrow> sample \<Rightarrow> sample" where
  "check_values ops self info_new =
     (if length (data_history self) \<ge> num_min_history self then
        (let data_history_RH = map RH (data_history self);
             data_history_Tf = map Tf (data_history self);
             RH_checked = check_data_value ops self data_history_RH (RH info_new);
             Tf_checked = check_data_value ops self data_history_Tf (Tf info_new)
         in info_new\<lparr>RH := RH_checked, Tf := Tf_checked\<rparr>)
      else info_new)"

subsection \<open>\<^verbatim>\<open>Channel.add_data\<close> and one cycle of \<^verbatim>\<open>Channel.run\<close>\<close>

text \<open>
  The result is the outcome (the exception raised, or the sample returned) with the
  channel and the queue as the call leaves them: an exception does not undo the
  assignments made before it.
\<close>

definition add_data ::
  "float_ops \<Rightarrow> channel \<Rightarrow> queue \<Rightarrow> real \<Rightarrow> sample \<Rightarrow> (py_exception + sample) \<times> channel \<times> queue" where
  "add_data ops self q time_stamp_now info =
     (case adjust_history self time_stamp_now of
        (Inl e, self1) \<Rightarrow> (Inl e, self1, q)
      | (Inr (num_remain, num_removed), self1) \<Rightarrow>
          if num_remain = 0 \<and> num_removed > 0 then (Inl NoDataRemains, self1, q)
          else
            (let info' = check_values ops self1 info;
                 self2 = self1\<lparr>data_history := data_history self1 @ [info'],
                               data_latest := Some info'\<rparr>
             in case put_nowait q info' of
                  None \<Rightarrow> (Inl QueueFull, self2, q)
                | Some q' \<Rightarrow> (Inr info', self2, q')))"

text \<open>
  One pass through the body of the \<^verbatim>\<open>while\<close> loop of \<^verbatim>\<open>Channel.run\<close>, without the
  sleeping. \<open>first\<close> and \<open>bits\<close> are what \<^verbatim>\<open>dht22.read_bits\<close> returns; \<open>t_sample\<close> is
  \<^verbatim>\<open>time.time()\<close> as read for the sample's \<^verbatim>\<open>'time_stamp'\<close> and \<open>t_adjust\<close> as read
  next, inside \<^verbatim>\<open>adjust_history\<close>. The outcome is \<open>Inr None\<close> when the reading is not
  valid and nothing is stored.
\<close>

definition run_cycle ::
  "float_ops \<Rightarrow> channel \<Rightarrow> queue \<Rightarrow> int option \<Rightarrow> int list \<Rightarrow> real \<Rightarrow> real
     \<Rightarrow> (py_exception + sample option) \<times> channel \<times> queue" where
  "run_cycle ops self q first bits t_sample t_adjust =
     (case read_dht22_single first bits of
        Inl e \<Rightarrow> (Inl e, self, q)
      | Inr (Failed msg) \<Rightarrow> (Inr None, self, q)
      | Inr (Reading RH_val Tc) \<Rightarrow>
          (let info = \<lparr>type = ''sample'', pin = chan_pin self, RH = RH_val, Tf = c2f Tc,
                       time_stamp = t_sample\<rparr>
           in case add_data ops self q t_adjust info of
                (Inl e, self', q') \<Rightarrow> (Inl e, self', q')
              | (Inr info', self', q') \<Rightarrow> (Inr (Some info'), self', q')))"

section \<open>The coordinator: \<^verbatim>\<open>collect_data\<close>\<close>

definition stop_all_channels :: "channel list \<Rightarrow> channel list" where
  "stop_all_channels channels = map stop channels"

subsection \<open>Waiting for the channels\<close>

definition time_wait_max :: real where
  "time_wait_max = 30"

text \<open>
  The loop \<^verbatim>\<open>while time_elapsed < time_wait_max and not all_channels_ok\<close>. The channels
  run in threads of their own, so what the loop sees is an input: one pair per
  iteration, holding the channel objects as the \<^verbatim>\<open>for c in channels\<close> loop finds them
  and the value of \<^verbatim>\<open>time.clock()\<close> read at the end of the iteration. \<open>n\<close> is
  \<^verbatim>\<open>len(channels)\<close>. \<open>count_ready\<close> is \<open>None\<close> until the loop assigns it. The result is
  \<open>None\<close> when the observations run out while the loop would go on.
\<close>

fun ready_loop ::
  "nat \<Rightarrow> real \<Rightarrow> (channel list \<times> real) list \<Rightarrow> channel list \<Rightarrow> real \<Rightarrow> bool \<Rightarrow> nat option
     \<Rightarrow> (channel list \<times> bool \<times> nat option) option" where
  "ready_loop n time_zero [] channels time_elapsed all_channels_ok count_ready =
     (if time_elapsed < time_wait_max \<and> \<not> all_channels_ok then None
      else Some (channels, all_channels_ok, count_ready))"
| "ready_loop n time_zero ((seen, clock) # rest) channels time_elapsed all_channels_ok count_ready =
     (if time_elapsed < time_wait_max \<and> \<not> all_channels_ok then
        (let count_ready' = length (filter (\<lambda>c. data_latest c \<noteq> None) seen);
             all_channels_ok' = (if count_ready' = n then True else all_channels_ok)
         in ready_loop n time_zero rest seen (clock - time_zero) all_channels_ok'
              (Some count_ready'))
      else Some (channels, all_channels_ok, count_ready))"

text \<open>
  The readiness check of \<^verbatim>\<open>collect_data\<close>, from \<^verbatim>\<open>all_channels_ok = False\<close> to the
  \<^verbatim>\<open>raise\<close>: the outcome and the channels as it leaves them.
\<close>

definition wait_for_channels ::
  "channel list \<Rightarrow> real \<Rightarrow> (channel list \<times> real) list
     \<Rightarrow> ((py_exception + unit) \<times> channel list) option" where
  "wait_for_channels channels time_zero observations =
     (case ready_loop (length channels) time_zero observations channels 0 False None of
        None \<Rightarrow> None
      | Some (channels', all_channels_ok, count_ready) \<Rightarrow>
          if \<not> all_channels_ok then
            (case count_ready of
               None \<Rightarrow> Some (Inl UnboundLocal, stop_all_channels channels')
             | Some k \<Rightarrow> Some (Inl (OnlyReady k (length channels)), stop_all_channels channels'))
          else Some (Inr (), channels'))"

subsection \<open>Draining the queue and saving the batch\<close>

text \<open>The loop \<^verbatim>\<open>while not queue.empty(): data_collected.append(queue.get())\<close>, on the
  items the queue holds.\<close>

fun drain_loop :: "sample list \<Rightarrow> sample list \<Rightarrow> sample list" where
  "drain_loop [] data_collected = data_collected"
| "drain_loop (info # rest) data_collected = drain_loop rest (data_collected @ [info])"

text \<open>\<^verbatim>\<open>t = data_collected[0]['time_stamp']\<close>, reached only with a non-empty list.\<close>

definition first_time_stamp :: "sample list \<Rightarrow> real" where
  "first_time_stamp data_collected = time_stamp (data_collected ! 0)"

text \<open>
  \<^verbatim>\<open>utility.reformat_timestamp(seconds, fmt)\<close> for a number of seconds. The conversion
  to the zone \<^verbatim>\<open>America/Los_Angeles\<close> followed by \<^verbatim>\<open>strftime(fmt)\<close> is the work of
  \<^verbatim>\<open>pytz\<close> and \<^verbatim>\<open>datetime\<close>; it is the parameter \<open>strftime_LAX\<close>.
\<close>

definition reformat_timestamp :: "(string \<Rightarrow> real \<Rightarrow> string) \<Rightarrow> real \<Rightarrow> string option \<Rightarrow> string" where
  "reformat_timestamp strftime_LAX seconds fmt =
     (let fmt' = (case fmt of None \<Rightarrow> ''%Y-%m-%d %H:%M:%S'' | Some f \<Rightarrow> f)
      in strftime_LAX fmt' seconds)"

text \<open>\<^verbatim>\<open>os.path.join(a, b)\<close> on a POSIX system.\<close>

definition path_join :: "string \<Rightarrow> string \<Rightarrow> string" where
  "path_join a b =
     (if take 1 b = ''/'' then b
      else if a = [] \<or> drop (length a - 1) a = ''/'' then a @ b
      else a @ ''/'' @ b)"

text \<open>
  One pass of the main loop of \<^verbatim>\<open>collect_data\<close>, from \<^verbatim>\<open>data_collected = []\<close> to
  \<^verbatim>\<open>io.write(f, data_collected)\<close>. The files written so far are a list of pairs of a
  path and the records written to it; \<^verbatim>\<open>io.write\<close> adds one.
\<close>

definition collect_once ::
  "(string \<Rightarrow> real \<Rightarrow> string) \<Rightarrow> string \<Rightarrow> queue \<Rightarrow> (string \<times> sample list) list
     \<Rightarrow> queue \<times> (string \<times> sample list) list" where
  "collect_once strftime_LAX path_data q files =
     (let data_collected = drain_loop (items q) [];
          q' = q\<lparr>items := []\<rparr>
      in if length data_collected > 0 then
           (let t = first_time_stamp data_collected;
                fmt = ''%Y-%m-%d %H-%M-%S'';
                time_stamp' = reformat_timestamp strftime_LAX t (Some fmt);
                f = path_join path_data (''data-'' @ time_stamp' @ ''.yml'')
            in (q', files @ [(f, data_collected)]))
         else (q', files))"

section \<open>Reference notions used to state the properties\<close>

text \<open>
  The value of a group of bits read as a big-endian binary number, most significant bit
  first: the meaning the protocol gives to each of the five bytes of a frame. It is the
  yardstick \<^verbatim>\<open>bits_to_bytes\<close> is compared with, not a part of the program.
\<close>

definition big_endian_byte :: "int list \<Rightarrow> int" where
  "big_endian_byte bs = foldl (\<lambda>acc b. 2 * acc + b) 0 bs"

definition bit_char :: "int \<Rightarrow> char" where
  "bit_char b = (if b = 0 then CHR ''0'' else CHR ''1'')"

text \<open>The frame of the end-to-end example, and the same frame with the checksum byte
  that matches its first four bytes.\<close>

definition example_bits :: "int list" where
  "example_bits =
     [0,0,0,0,0,0,1,0, 0,0,0,0,1,1,0,0, 0,0,0,0,0,0,0,1, 0,1,0,1,0,0,0,0, 0,1,1,1,1,1,1,0]"

definition example_bits_fixed :: "int list" where
  "example_bits_fixed =
     [0,0,0,0,0,0,1,0, 0,0,0,0,1,1,0,0, 0,0,0,0,0,0,0,1, 0,1,0,1,0,0,0,0, 0,1,0,1,1,1,1,1]"

text \<open>
  The test of \<^verbatim>\<open>adjust_history\<close> on one entry, the entries that pass it, and the
  situation in which the history is not empty and no entry passes.
\<close>

definition too_old :: "channel \<Rightarrow> real \<Rightarrow> sample \<Rightarrow> bool" where
  "too_old self now d \<longleftrightarrow> now - time_stamp d > time_history self"

definition kept :: "channel \<Rightarrow> real \<Rightarrow> sample list" where
  "kept self now = filter (\<lambda>d. \<not> too_old self now d) (data_history self)"

definition all_too_old :: "channel \<Rightarrow> real \<Rightarrow> bool" where
  "all_too_old self now \<longleftrightarrow>
     data_history self \<noteq> [] \<and> list_all (too_old self now) (data_history self)"

text \<open>Concrete data for the examples: a sample of pin 4 with the given humidity,
  temperature and time stamp, and a channel of pin 4 with a given history.\<close>

definition sample_at :: "real \<Rightarrow> real \<Rightarrow> real \<Rightarrow> sample" where
  "sample_at h f ts = \<lparr>type = ''sample'', pin = 4, RH = h, Tf = f, time_stamp = ts\<rparr>"

definition channel_with :: "sample list \<Rightarrow> channel" where
  "channel_with h = (fst (Channel_init 4 (Some (Queue_init 100)) None None))\<lparr>data_history := h\<rparr>"

text \<open>The number of channels that have a latest sample, as the readiness loop counts
  them.\<close>

definition count_with_data :: "channel list \<Rightarrow> nat" where
  "count_with_data channels = length (filter (\<lambda>c. data_latest c \<noteq> None) channels)"

text \<open>A history of ten samples for the examples: humidities 41 to 50, temperature 70.\<close>

definition ten_samples :: "sample list" where
  "ten_samples =
     [sample_at 41 70 1, sample_at 42 70 2, sample_at 43 70 3, sample_at 44 70 4,
      sample_at 45 70 5, sample_at 46 70 6, sample_at 47 70 7, sample_at 48 70 8,
      sample_at 49 70 9, sample_at 50 70 10]"

text \<open>Two channels for the examples: one that has stored a sample and one that has not,
  both running.\<close>

definition ready_channel :: channel where
  "ready_channel = (channel_with [])\<lparr>data_latest := Some (sample_at 50 70 1), keep_running := True\<rparr>"

definition waiting_channel :: channel where
  "waiting_channel = (channel_with [])\<lparr>keep_running := True\<rparr>"

text \<open>
  Two entries of the time formatting for the examples: seconds 1 and 2 after the epoch,
  in the zone of Los Angeles and the format \<^verbatim>\<open>%Y-%m-%d %H-%M-%S\<close>.
\<close>

definition strftime_table :: "string \<Rightarrow> real \<Rightarrow> string" where
  "strftime_table fmt t =
     (if t = 1 then ''1969-12-31 16-00-01''
      else if t = 2 then ''1969-12-31 16-00-02''
      else [])"

text \<open>
  Float operations that round nothing, for the examples: they give what the doubles'
  operations give wherever the exact result is itself a double, as it is for every
  value the examples pass through the outlier check (integers and halves).
\<close>

definition exact_ops :: float_ops where
  "exact_ops = \<lparr>float_sub = (\<lambda>a b. a - b), float_mean2 = (\<lambda>a b. (a + b) / 2)\<rparr>"







section \<open>The decoder\<close>

lemma str_int_bit: "b \<in> {0, 1} \<Longrightarrow> str_int b = [bit_char b]"
  by (auto simp: str_int_def str_nat.simps digit_char_def bit_char_def)

lemma foldl_str_bits:
  "set bs \<subseteq> {0, 1} \<Longrightarrow> foldl (\<lambda>s b. s @ str_int b) acc bs = acc @ map bit_char bs"
proof (induction bs arbitrary: acc)
  case Nil
  then show ?case by simp
next
  case (Cons b bs)
  then have "str_int b = [bit_char b]" by (intro str_int_bit) simp
  with Cons show ?case by simp
qed

lemma byte_str_bits: "set bs \<subseteq> {0, 1} \<Longrightarrow> byte_str bs = map bit_char bs"
  by (simp add: byte_str_def foldl_str_bits)

lemma bin_digits_bits:
  "set bs \<subseteq> {0, 1} \<Longrightarrow>
     bin_digits (map bit_char bs) acc = Some (foldl (\<lambda>a b. 2 * a + b) acc bs)"
  by (induction bs arbitrary: acc) (auto simp: bit_char_def)

lemma int_base2_bits:
  assumes "set bs \<subseteq> {0, 1}" "bs \<noteq> []"
  shows "int_base2 (byte_str bs) = Inr (big_endian_byte bs)"
proof -
  obtain b bs' where bs: "bs = b # bs'" using assms(2) by (cases bs) auto
  have "bit_char b \<noteq> CHR ''-''" by (simp add: bit_char_def)
  moreover have "bin_digits (map bit_char bs) 0 = Some (big_endian_byte bs)"
    using assms(1) by (simp add: bin_digits_bits big_endian_byte_def)
  ultimately show ?thesis
    using assms(1) by (simp add: int_base2_def byte_str_bits bs)
qed

lemma slice_bits: "set bits \<subseteq> {0, 1} \<Longrightarrow> set (slice i j bits) \<subseteq> {0, 1}"
  unfolding slice_def by (meson order_trans set_take_subset set_drop_subset)

lemma slice_nonempty: "i < j \<Longrightarrow> j \<le> length bits \<Longrightarrow> slice i j bits \<noteq> []"
  by (auto simp: slice_def)

lemma bits_to_bytes_bits:
  assumes "length bits = 40" "set bits \<subseteq> {0, 1}"
  shows "bits_to_bytes bits =
           Inr (big_endian_byte (slice 0 8 bits), big_endian_byte (slice 8 16 bits),
                big_endian_byte (slice 16 24 bits), big_endian_byte (slice 24 32 bits),
                compute_checksum (big_endian_byte (slice 0 8 bits))
                  (big_endian_byte (slice 8 16 bits)) (big_endian_byte (slice 16 24 bits))
                  (big_endian_byte (slice 24 32 bits)) (big_endian_byte (slice 32 40 bits)))"
proof -
  have "int_base2 (byte_str (slice i j bits)) = Inr (big_endian_byte (slice i j bits))"
    if "i < j" "j \<le> 40" for i j
    using that assms by (intro int_base2_bits slice_bits slice_nonempty) auto
  then show ?thesis
    using assms(1) by (simp add: bits_to_bytes_def)
qed

lemma adjust_history_empty:
  "data_history self = [] \<Longrightarrow> adjust_history self now = (Inr (0, 0), self)"
  by (simp add: adjust_history_def)

lemma check_values_empty: "data_history self = [] \<Longrightarrow> check_values ops self info = info"
  by (simp add: check_values_def check_data_value_def median_def)

lemma add_data_empty:
  "data_history self = [] \<Longrightarrow> \<not> full q \<Longrightarrow>
   add_data ops self q now info =
     (Inr info, self\<lparr>data_history := [info], data_latest := Some info\<rparr>,
      q\<lparr>items := items q @ [info]\<rparr>)"
  by (simp add: add_data_def adjust_history_empty check_values_empty put_nowait_def)

lemma run_cycle_first_sample:
  "fst (run_cycle ops (fst (Channel_init p None None None)) (Queue_init 100) first bits t t') =
     (case read_dht22_single first bits of
        Inl e \<Rightarrow> Inl e
      | Inr (Failed msg) \<Rightarrow> Inr None
      | Inr (Reading h c) \<Rightarrow>
          Inr (Some \<lparr>type = ''sample'', pin = p, RH = h, Tf = c * 9 / 5 + 32,
                     time_stamp = t\<rparr>))"
proof -
  have e: "data_history (fst (Channel_init p None None None)) = []"
    and c: "chan_pin (fst (Channel_init p None None None)) = p"
    by (simp_all add: Channel_init_def)
  have f: "\<not> full (Queue_init 100)"
    by (simp add: full_def Queue_init_def)
  show ?thesis
    by (simp add: run_cycle_def add_data_empty [OF e f] c c2f_def Let_def
        split: sum.splits reading.splits)
qed

text \<open>
  C1. For every capture of 40 bits (each 0 or 1) whose start marker is present and equal
  to 1, with B1..B5 the five groups of eight bits read as big-endian numbers: the read
  succeeds exactly when \<open>(B1 + B2 + B3 + B4) AND 255 = B5\<close>; it then returns the humidity
  \<open>((B1 << 8) + B2) / 10\<close> and the temperature in Celsius \<open>((B3 << 8) + B4) / 10\<close>, and
  otherwise fails with the checksum message. The polling cycle stores the temperature of
  a good read in Fahrenheit, as \<open>C * 9 / 5 + 32\<close>, and stores nothing after a failed one
  (shown on a new channel, where the outlier check has no history to compare with).
\<close>

theorem decode_checksum:
  "length bits = 40 \<Longrightarrow> set bits \<subseteq> {0, 1} \<Longrightarrow>
   (let B1 = big_endian_byte (slice 0 8 bits);
        B2 = big_endian_byte (slice 8 16 bits);
        B3 = big_endian_byte (slice 16 24 bits);
        B4 = big_endian_byte (slice 24 32 bits);
        B5 = big_endian_byte (slice 32 40 bits);
        humidity = real_of_int (push_bit 8 B1 + B2) / 10;
        celsius = real_of_int (push_bit 8 B3 + B4) / 10
    in read_dht22_single (Some 1) bits =
         Inr (if (B1 + B2 + B3 + B4) AND 255 = B5 then Reading humidity celsius
              else Failed ChecksumMismatch) \<and>
       fst (run_cycle ops (fst (Channel_init p None None None)) (Queue_init 100)
              (Some 1) bits t t') =
         Inr (if (B1 + B2 + B3 + B4) AND 255 = B5
              then Some \<lparr>type = ''sample'', pin = p, RH = humidity,
                         Tf = celsius * 9 / 5 + 32, time_stamp = t\<rparr>
              else None))"
proof -
  assume a: "length bits = 40" "set bits \<subseteq> {0, 1}"
  define B1 where "B1 = big_endian_byte (slice 0 8 bits)"
  define B2 where "B2 = big_endian_byte (slice 8 16 bits)"
  define B3 where "B3 = big_endian_byte (slice 16 24 bits)"
  define B4 where "B4 = big_endian_byte (slice 24 32 bits)"
  define B5 where "B5 = big_endian_byte (slice 32 40 bits)"
  have r: "read_dht22_single (Some 1) bits =
     Inr (if (B1 + B2 + B3 + B4) AND 255 = B5
          then Reading (real_of_int (push_bit 8 B1 + B2) / 10)
                 (real_of_int (push_bit 8 B3 + B4) / 10)
          else Failed ChecksumMismatch)"
    using a unfolding B1_def B2_def B3_def B4_def B5_def
    by (simp add: read_dht22_single_def bits_to_bytes_bits compute_checksum_def)
  have "fst (run_cycle ops (fst (Channel_init p None None None)) (Queue_init 100)
              (Some 1) bits t t') =
         Inr (if (B1 + B2 + B3 + B4) AND 255 = B5
              then Some \<lparr>type = ''sample'', pin = p,
                         RH = real_of_int (push_bit 8 B1 + B2) / 10,
                         Tf = real_of_int (push_bit 8 B3 + B4) / 10 * 9 / 5 + 32,
                         time_stamp = t\<rparr>
              else None)"
    unfolding run_cycle_first_sample r by simp
  with r show ?thesis
    unfolding Let_def B1_def B2_def B3_def B4_def B5_def by blast
qed

theorem decode_checksum_witness:
  "length example_bits_fixed = 40 \<and> set example_bits_fixed \<subseteq> {0, 1} \<and>
   read_dht22_single (Some 1) example_bits_fixed = Inr (Reading (524 / 10) (336 / 10)) \<and>
   fst (run_cycle exact_ops (fst (Channel_init 4 None None None)) (Queue_init 100)
          (Some 1) example_bits_fixed 7 8) =
     Inr (Some \<lparr>type = ''sample'', pin = 4, RH = 524 / 10, Tf = 9248 / 100, time_stamp = 7\<rparr>)"
  using decode_checksum [where bits = example_bits_fixed and ops = exact_ops and p = 4
      and t = 7 and t' = 8]
  by (simp add: example_bits_fixed_def big_endian_byte_def slice_def Let_def)

text \<open>
  C9. For every capture whose start marker is present and equal to 1 and whose number of
  bits is not 40, the read fails with the wrong-length message, whatever the bits are
  (they need not even be bits); the polling cycle then stores and publishes nothing.
  The checksum is not computed on this path: \<^verbatim>\<open>bits_to_bytes\<close>, which computes it, would
  itself raise on such a list before reading any bit.
\<close>

theorem wrong_length:
  "length bits \<noteq> 40 \<Longrightarrow>
   read_dht22_single (Some 1) bits = Inr (Failed (WrongLength (length bits))) \<and>
   bits_to_bytes bits = Inl (BitsNot40 (length bits)) \<and>
   run_cycle ops self q (Some 1) bits t t' = (Inr None, self, q)"
  by (simp add: read_dht22_single_def bits_to_bytes_def run_cycle_def)

theorem wrong_length_witness:
  "length (7 # example_bits) \<noteq> 40 \<and>
   read_dht22_single (Some 1) (7 # example_bits) = Inr (Failed (WrongLength 41)) \<and>
   bits_to_bytes (7 # example_bits) = Inl (BitsNot40 41) \<and>
   run_cycle exact_ops (fst (Channel_init 4 None None None)) (Queue_init 100) (Some 1)
     (7 # example_bits) 7 8 = (Inr None, fst (Channel_init 4 None None None), Queue_init 100)"
  using wrong_length [where bits = "7 # example_bits" and ops = exact_ops
      and self = "fst (Channel_init 4 None None None)" and q = "Queue_init 100"
      and t = 7 and t' = 8]
  by (simp add: example_bits_def)

text \<open>
  C5, as the program behaves. On the frame of the end-to-end example the decoder reads
  B1 = 2, B2 = 12, B3 = 1, B4 = 80 and B5 = 126; the checksum of the first four bytes is
  95, not B5, so the reading is rejected with the checksum message. With the checksum
  byte 95 in its place the reading is accepted, with humidity 52.4 and temperature 33.6
  degrees Celsius.
\<close>

theorem example_frame_rejected:
  "bits_to_bytes example_bits = Inr (2, 12, 1, 80, False) \<and>
   int_base2 (byte_str (slice 32 40 example_bits)) = Inr 126 \<and>
   (2 + 12 + 1 + 80 :: int) AND 255 = 95 \<and>
   read_dht22_single (Some 1) example_bits = Inr (Failed ChecksumMismatch) \<and>
   read_dht22_single (Some 1) example_bits_fixed = Inr (Reading (524 / 10) (336 / 10))"
  by (simp add: read_dht22_single_def bits_to_bytes_def slice_def byte_str_def str_int_def
      str_nat.simps digit_char_def int_base2_def compute_checksum_def example_bits_def
      example_bits_fixed_def)

text \<open>
  C5, as stated, fails: the example frame is not accepted, and no reading with humidity
  51.2 and temperature 33.6 comes out of it.
\<close>

theorem example_frame_counterexample:
  "read_dht22_single (Some 1) example_bits \<noteq> Inr (Reading (512 / 10) (336 / 10)) \<and>
   bits_to_bytes example_bits \<noteq> Inr (2, 12, 1, 80, True)"
  by (simp add: read_dht22_single_def bits_to_bytes_def slice_def byte_str_def str_int_def
      str_nat.simps digit_char_def int_base2_def compute_checksum_def example_bits_def)

section \<open>The history and the queue\<close>

lemma list_remove_absent_prefix:
  "x \<notin> set pre \<Longrightarrow> list_remove x (pre @ x # ys) = Some (pre @ ys)"
  by (induction pre) auto

lemma remove_each_filter:
  "\<forall>x\<in>set pre. \<not> P x \<Longrightarrow>
   remove_each (filter P xs) (pre @ xs) = (None, pre @ filter (\<lambda>x. \<not> P x) xs)"
proof (induction xs arbitrary: pre)
  case Nil
  then show ?case by simp
next
  case (Cons y ys)
  show ?case
  proof (cases "P y")
    case True
    with Cons.prems have "y \<notin> set pre" by auto
    then have "list_remove y (pre @ y # ys) = Some (pre @ ys)"
      by (rule list_remove_absent_prefix)
    with True Cons.IH [OF Cons.prems] show ?thesis by simp
  next
    case False
    with Cons.prems have "\<forall>x\<in>set (pre @ [y]). \<not> P x" by simp
    from Cons.IH [OF this] False show ?thesis by simp
  qed
qed

lemma adjust_history_eq:
  "adjust_history self now =
     (Inr (length (kept self now), length (filter (too_old self now) (data_history self))),
      self\<lparr>data_history := kept self now\<rparr>)"
  using remove_each_filter [of "[]" "too_old self now" "data_history self"]
  by (simp add: adjust_history_def kept_def too_old_def [abs_def])

lemma guard_iff:
  "(length (filter (\<lambda>d. \<not> P d) xs) = 0 \<and> length (filter P xs) > 0) \<longleftrightarrow>
   (xs \<noteq> [] \<and> list_all P xs)"
  by (cases xs) (auto simp: list_all_iff filter_empty_conv)

lemma kept_all_too_old: "all_too_old self now \<Longrightarrow> kept self now = []"
  by (auto simp: all_too_old_def kept_def list_all_iff filter_empty_conv)

lemma add_data_eq:
  "add_data ops self q now info =
     (if all_too_old self now then (Inl NoDataRemains, self\<lparr>data_history := []\<rparr>, q)
      else (let new = check_values ops (self\<lparr>data_history := kept self now\<rparr>) info;
                self' = self\<lparr>data_history := kept self now @ [new], data_latest := Some new\<rparr>
            in if full q then (Inl QueueFull, self', q)
               else (Inr new, self', q\<lparr>items := items q @ [new]\<rparr>)))"
proof -
  have g: "(length (kept self now) = 0 \<and>
            length (filter (too_old self now) (data_history self)) > 0)
           \<longleftrightarrow> all_too_old self now"
    unfolding kept_def all_too_old_def by (rule guard_iff)
  show ?thesis
  proof (cases "all_too_old self now")
    case True
    with g kept_all_too_old [OF True] show ?thesis
      by (simp add: add_data_def adjust_history_eq)
  next
    case False
    with g show ?thesis
      by (simp add: add_data_def adjust_history_eq put_nowait_def Let_def)
  qed
qed

lemma check_values_frame:
  "type (check_values ops self info) = type info \<and> pin (check_values ops self info) = pin info \<and>
   time_stamp (check_values ops self info) = time_stamp info"
  by (simp add: check_values_def Let_def)

lemma kept_fresh: "list_all (\<lambda>d. now - time_stamp d \<le> time_history self) (kept self now)"
  by (auto simp: kept_def too_old_def list_all_iff)

text \<open>
  C3, as the program behaves. In every call of \<^verbatim>\<open>add_data\<close> the eviction runs first and
  leaves exactly the entries whose age \<open>now - time_stamp\<close> does not exceed
  \<open>time_history\<close> (600 seconds unless given), in their order. The call raises
  \<^verbatim>\<open>ValueError('No data remains in history.')\<close> exactly when the history was not empty
  and every entry of it was too old; the sample is then not appended and the history is
  left empty. In every other call the sample is appended: the history after the call is
  the entries kept followed by the new sample (as returned by the outlier check, with
  the time stamp it came with), which is also the latest sample; so the new sample is
  present, it was not subject to the eviction, every entry kept from before is within
  the window as measured at the eviction, and so is the whole history when the new
  sample's own time stamp is.
\<close>

theorem add_data_evicts_before_append:
  "(let new = check_values ops (self\<lparr>data_history := kept self now\<rparr>) info;
        outcome = fst (add_data ops self q now info);
        self' = fst (snd (add_data ops self q now info))
    in adjust_history self now =
         (Inr (length (kept self now), length (filter (too_old self now) (data_history self))),
          self\<lparr>data_history := kept self now\<rparr>) \<and>
       kept self now =
         filter (\<lambda>d. \<not> now - time_stamp d > time_history self) (data_history self) \<and>
       list_all (\<lambda>d. now - time_stamp d \<le> time_history self) (kept self now) \<and>
       (outcome = Inl NoDataRemains \<longleftrightarrow>
          data_history self \<noteq> [] \<and>
          list_all (\<lambda>d. now - time_stamp d > time_history self) (data_history self)) \<and>
       (outcome = Inl NoDataRemains \<longrightarrow>
          data_history self' = [] \<and> data_latest self' = data_latest self) \<and>
       (outcome \<noteq> Inl NoDataRemains \<longrightarrow>
          data_history self' = kept self now @ [new] \<and>
          data_latest self' = Some new \<and>
          time_stamp new = time_stamp info \<and>
          (now - time_stamp info \<le> time_history self \<longrightarrow>
             list_all (\<lambda>d. now - time_stamp d \<le> time_history self) (data_history self'))) \<and>
       time_history (fst (Channel_init p qa tw None)) = 600)"
proof -
  define new where "new = check_values ops (self\<lparr>data_history := kept self now\<rparr>) info"
  have o: "fst (add_data ops self q now info) = Inl NoDataRemains \<longleftrightarrow> all_too_old self now"
    by (simp add: add_data_eq Let_def)
  have u: "all_too_old self now \<longleftrightarrow>
      data_history self \<noteq> [] \<and>
      list_all (\<lambda>d. now - time_stamp d > time_history self) (data_history self)"
    by (simp add: all_too_old_def too_old_def [abs_def])
  have r: "data_history (fst (snd (add_data ops self q now info))) = [] \<and>
      data_latest (fst (snd (add_data ops self q now info))) = data_latest self"
    if "all_too_old self now"
    using that by (simp add: add_data_eq)
  have h: "data_history (fst (snd (add_data ops self q now info))) = kept self now @ [new]"
    and l: "data_latest (fst (snd (add_data ops self q now info))) = Some new"
    if "\<not> all_too_old self now"
    using that by (simp_all add: add_data_eq new_def Let_def)
  have t: "time_stamp new = time_stamp info"
    by (simp add: new_def check_values_frame)
  have d: "time_history (fst (Channel_init p qa tw None)) = 600"
    by (simp add: Channel_init_def time_history_default_def)
  have k: "kept self now =
         filter (\<lambda>d. \<not> now - time_stamp d > time_history self) (data_history self)"
    by (simp add: kept_def too_old_def)
  have f: "list_all (\<lambda>d. now - time_stamp d \<le> time_history self) (kept self now @ [new])"
    if "now - time_stamp info \<le> time_history self"
    using that t kept_fresh [of now self] by simp
  show ?thesis
    unfolding Let_def new_def [symmetric] o
    using u r h l t d k f kept_fresh [of now self] adjust_history_eq [of self now]
    by (cases "all_too_old self now") simp_all
qed

lemmas example_defs =
  channel_with_def sample_at_def Channel_init_def Queue_init_def time_history_default_def
  time_wait_default_def all_too_old_def too_old_def kept_def full_def

theorem add_data_evicts_before_append_witness:
  "fst (add_data exact_ops (channel_with [sample_at 50 70 0, sample_at 50 70 500])
       (Queue_init 100) 1000 (sample_at 51 71 1000)) \<noteq> Inl NoDataRemains \<and>
   data_history (snd (adjust_history (channel_with [sample_at 50 70 0, sample_at 50 70 500]) 1000))
     = [sample_at 50 70 500] \<and>
   data_history (fst (snd (add_data exact_ops (channel_with [sample_at 50 70 0, sample_at 50 70 500])
       (Queue_init 100) 1000 (sample_at 51 71 1000))))
     = [sample_at 50 70 500, sample_at 51 71 1000] \<and>
   data_latest (fst (snd (add_data exact_ops (channel_with [sample_at 50 70 0, sample_at 50 70 500])
       (Queue_init 100) 1000 (sample_at 51 71 1000))))
     = Some (sample_at 51 71 1000) \<and>
   fst (add_data exact_ops (channel_with [sample_at 50 70 0, sample_at 52 72 100])
       (Queue_init 100) 1000 (sample_at 51 71 1000)) = Inl NoDataRemains \<and>
   data_history (fst (snd (add_data exact_ops (channel_with [sample_at 50 70 0, sample_at 52 72 100])
       (Queue_init 100) 1000 (sample_at 51 71 1000)))) = []"
proof -
  have k: "kept (channel_with [sample_at 50 70 0, sample_at 50 70 500]) 1000 = [sample_at 50 70 500]"
    by (simp add: example_defs)
  have c: "check_values exact_ops (channel_with [sample_at 50 70 0, sample_at 50 70 500]
                \<lparr>data_history := [sample_at 50 70 500]\<rparr>) (sample_at 51 71 1000)
           = sample_at 51 71 1000"
    by (simp add: check_values_def example_defs)
  have s: "data_history (channel_with [sample_at 50 70 0, sample_at 50 70 500]) \<noteq> [] \<and>
      \<not> list_all (\<lambda>d. 1000 - time_stamp d > time_history (channel_with [sample_at 50 70 0, sample_at 50 70 500]))
          (data_history (channel_with [sample_at 50 70 0, sample_at 50 70 500]))"
    by (simp add: example_defs)
  have a: "data_history (channel_with [sample_at 50 70 0, sample_at 52 72 100]) \<noteq> [] \<and>
      list_all (\<lambda>d. 1000 - time_stamp d > time_history (channel_with [sample_at 50 70 0, sample_at 52 72 100]))
          (data_history (channel_with [sample_at 50 70 0, sample_at 52 72 100]))"
    by (simp add: example_defs)
  from add_data_evicts_before_append
         [where ops = exact_ops and self = "channel_with [sample_at 50 70 0, sample_at 50 70 500]"
            and now = 1000 and info = "sample_at 51 71 1000" and q = "Queue_init 100"]
       add_data_evicts_before_append
         [where ops = exact_ops and self = "channel_with [sample_at 50 70 0, sample_at 52 72 100]"
            and now = 1000 and info = "sample_at 51 71 1000" and q = "Queue_init 100"]
  show ?thesis
    unfolding Let_def k c using s a by simp
qed

text \<open>
  C3, as stated, fails: with two entries of time stamps 0 and 100 in the history, a
  window of 600 seconds and the clock at 1000, the call evicts both, raises, and the
  new sample is not in the history afterwards.
\<close>

theorem append_after_eviction_counterexample:
  "fst (add_data exact_ops (channel_with [sample_at 50 70 0, sample_at 52 72 100])
          (Queue_init 100) 1000 (sample_at 51 71 1000)) = Inl NoDataRemains \<and>
   sample_at 51 71 1000 \<notin>
     set (data_history (fst (snd (add_data exact_ops
            (channel_with [sample_at 50 70 0, sample_at 52 72 100])
            (Queue_init 100) 1000 (sample_at 51 71 1000)))))"
  by (simp add: add_data_eq example_defs)




text \<open>
  C7, as the program behaves. A polling cycle that reads a good frame builds the sample
  and calls \<^verbatim>\<open>add_data\<close>, and what follows is one of three things. If the history is
  not empty and wholly too old (the guard of C4), the cycle raises the \<^verbatim>\<open>ValueError\<close>
  before it publishes, whether the queue is full or not, and the queue is left as it was.
  Otherwise, if the queue is full, \<^verbatim>\<open>put(info, False)\<close> raises \<^verbatim>\<open>Queue.Full\<close>, which
  \<^verbatim>\<open>add_data\<close> raises again and the cycle, having no handler, lets through: the queue is
  left as it was and the sample is not dropped in silence. Otherwise the sample is added
  at the end of the queue and returned. A cycle whose read fails publishes nothing. The
  queue of \<^verbatim>\<open>collect_data\<close> is full at 100 items; a queue with no capacity given is
  never full.
\<close>

theorem cycle_publishes_or_raises:
  "(read_dht22_single first bits = Inr (Reading h c) \<longrightarrow>
      (let info = \<lparr>type = ''sample'', pin = chan_pin self, RH = h, Tf = c2f c, time_stamp = t\<rparr>;
           new = check_values ops (self\<lparr>data_history := kept self now\<rparr>) info;
           self' = self\<lparr>data_history := kept self now @ [new], data_latest := Some new\<rparr>
       in run_cycle ops self q first bits t now =
            (if all_too_old self now then (Inl NoDataRemains, self\<lparr>data_history := []\<rparr>, q)
             else if full q then (Inl QueueFull, self', q)
             else (Inr (Some new), self', q\<lparr>items := items q @ [new]\<rparr>)) \<and>
          add_data ops self q now info =
            (if all_too_old self now then (Inl NoDataRemains, self\<lparr>data_history := []\<rparr>, q)
             else if full q then (Inl QueueFull, self', q)
             else (Inr new, self', q\<lparr>items := items q @ [new]\<rparr>)))) \<and>
   (read_dht22_single first bits = Inr (Failed msg) \<longrightarrow>
      run_cycle ops self q first bits t now = (Inr None, self, q)) \<and>
   (full (Queue_init 100\<lparr>items := xs\<rparr>) \<longleftrightarrow> length xs = 100) \<and>
   \<not> full (Queue_init 0\<lparr>items := xs\<rparr>)"
proof (intro conjI impI)
  assume r: "read_dht22_single first bits = Inr (Reading h c)"
  show "let info = \<lparr>type = ''sample'', pin = chan_pin self, RH = h, Tf = c2f c, time_stamp = t\<rparr>;
           new = check_values ops (self\<lparr>data_history := kept self now\<rparr>) info;
           self' = self\<lparr>data_history := kept self now @ [new], data_latest := Some new\<rparr>
       in run_cycle ops self q first bits t now =
            (if all_too_old self now then (Inl NoDataRemains, self\<lparr>data_history := []\<rparr>, q)
             else if full q then (Inl QueueFull, self', q)
             else (Inr (Some new), self', q\<lparr>items := items q @ [new]\<rparr>)) \<and>
          add_data ops self q now info =
            (if all_too_old self now then (Inl NoDataRemains, self\<lparr>data_history := []\<rparr>, q)
             else if full q then (Inl QueueFull, self', q)
             else (Inr new, self', q\<lparr>items := items q @ [new]\<rparr>))"
    by (simp add: run_cycle_def r add_data_eq Let_def)
next
  assume "read_dht22_single first bits = Inr (Failed msg)"
  then show "run_cycle ops self q first bits t now = (Inr None, self, q)"
    by (simp add: run_cycle_def)
next
  show "full (Queue_init 100\<lparr>items := xs\<rparr>) \<longleftrightarrow> length xs = 100"
    by (auto simp: full_def Queue_init_def)
next
  show "\<not> full (Queue_init 0\<lparr>items := xs\<rparr>)"
    by (simp add: full_def Queue_init_def)
qed

lemma example_fixed_reading:
  "read_dht22_single (Some 1) example_bits_fixed = Inr (Reading (524 / 10) (336 / 10))"
  by (simp add: read_dht22_single_def bits_to_bytes_def slice_def byte_str_def str_int_def
      str_nat.simps digit_char_def int_base2_def compute_checksum_def example_bits_fixed_def)

theorem cycle_publishes_or_raises_witness:
  "read_dht22_single (Some 1) example_bits_fixed = Inr (Reading (524 / 10) (336 / 10)) \<and>
   run_cycle exact_ops (channel_with [sample_at 50 70 500]) (Queue_init 100) (Some 1)
       example_bits_fixed 999 1000 =
     (Inr (Some (sample_at (524 / 10) (9248 / 100) 999)),
      (channel_with [sample_at 50 70 500, sample_at (524 / 10) (9248 / 100) 999])
        \<lparr>data_latest := Some (sample_at (524 / 10) (9248 / 100) 999)\<rparr>,
      \<lparr>maxsize = 100, items = [sample_at (524 / 10) (9248 / 100) 999]\<rparr>) \<and>
   full \<lparr>maxsize = 1, items = [sample_at 1 1 1]\<rparr> \<and>
   run_cycle exact_ops (channel_with [sample_at 50 70 500])
       \<lparr>maxsize = 1, items = [sample_at 1 1 1]\<rparr> (Some 1) example_bits_fixed 999 1000 =
     (Inl QueueFull,
      (channel_with [sample_at 50 70 500, sample_at (524 / 10) (9248 / 100) 999])
        \<lparr>data_latest := Some (sample_at (524 / 10) (9248 / 100) 999)\<rparr>,
      \<lparr>maxsize = 1, items = [sample_at 1 1 1]\<rparr>) \<and>
   read_dht22_single (Some 1) example_bits = Inr (Failed ChecksumMismatch) \<and>
   run_cycle exact_ops (channel_with [sample_at 50 70 500]) (Queue_init 100) (Some 1)
       example_bits 999 1000 =
     (Inr None, channel_with [sample_at 50 70 500], Queue_init 100)"
proof -
  have f: "full \<lparr>maxsize = 1, items = [sample_at 1 1 1]\<rparr>" "\<not> full (Queue_init 100)"
    by (simp_all add: full_def Queue_init_def)
  have a: "\<not> all_too_old (channel_with [sample_at 50 70 500]) 1000"
    and k: "kept (channel_with [sample_at 50 70 500]) 1000 = [sample_at 50 70 500]"
    and p: "chan_pin (channel_with [sample_at 50 70 500]) = 4"
    by (simp_all add: example_defs)
  have c: "check_values exact_ops
      (channel_with [sample_at 50 70 500]\<lparr>data_history := [sample_at 50 70 500]\<rparr>) s = s" for s
    by (simp add: check_values_def example_defs)
  have b: "read_dht22_single (Some 1) example_bits = Inr (Failed ChecksumMismatch)"
    by (simp add: read_dht22_single_def bits_to_bytes_def slice_def byte_str_def str_int_def
      str_nat.simps digit_char_def int_base2_def compute_checksum_def example_bits_def)
  have u: "(channel_with [sample_at 50 70 500])\<lparr>data_history := xs, data_latest := l\<rparr> =
      (channel_with xs)\<lparr>data_latest := l\<rparr>" for xs l
    by (simp add: channel_with_def)
  from cycle_publishes_or_raises
         [where ops = exact_ops and self = "channel_with [sample_at 50 70 500]"
            and q = "Queue_init 100" and first = "Some 1" and bits = example_bits_fixed
            and h = "524 / 10" and c = "336 / 10" and t = 999 and now = 1000]
       cycle_publishes_or_raises
         [where ops = exact_ops and self = "channel_with [sample_at 50 70 500]"
            and q = "\<lparr>maxsize = 1, items = [sample_at 1 1 1]\<rparr>" and first = "Some 1"
            and bits = example_bits_fixed and h = "524 / 10" and c = "336 / 10" and t = 999
            and now = 1000]
       cycle_publishes_or_raises
         [where ops = exact_ops and self = "channel_with [sample_at 50 70 500]"
            and q = "Queue_init 100" and first = "Some 1" and bits = example_bits
            and msg = ChecksumMismatch and t = 999 and now = 1000]
       example_fixed_reading b f
  show ?thesis
    unfolding Let_def k p c
    by (simp add: a u) (simp add: sample_at_def c2f_def Queue_init_def)
qed

text \<open>
  C7, as stated, fails: a cycle that reads a good frame while the only entry of the
  history is too old raises the \<^verbatim>\<open>ValueError\<close> of the guard and publishes nothing,
  though the queue is empty; and with the queue full the same cycle raises that error,
  not \<^verbatim>\<open>Queue.Full\<close>.
\<close>

theorem cycle_not_published_counterexample:
  "run_cycle exact_ops (channel_with [sample_at 50 70 0]) (Queue_init 100) (Some 1)
       example_bits_fixed 999 1000 =
     (Inl NoDataRemains, channel_with [], Queue_init 100) \<and>
   items (Queue_init 100) = [] \<and>
   full \<lparr>maxsize = 1, items = [sample_at 1 1 1]\<rparr> \<and>
   run_cycle exact_ops (channel_with [sample_at 50 70 0])
       \<lparr>maxsize = 1, items = [sample_at 1 1 1]\<rparr> (Some 1) example_bits_fixed 999 1000 =
     (Inl NoDataRemains, channel_with [], \<lparr>maxsize = 1, items = [sample_at 1 1 1]\<rparr>)"
proof -
  have a: "all_too_old (channel_with [sample_at 50 70 0]) 1000"
    by (simp add: example_defs)
  have s: "(channel_with [sample_at 50 70 0])\<lparr>data_history := []\<rparr> = channel_with []"
    by (simp add: channel_with_def)
  show ?thesis
    by (simp add: run_cycle_def example_fixed_reading add_data_eq a s)
      (simp add: full_def Queue_init_def)
qed

section \<open>The outlier check\<close>










text \<open>
  C10. The outlier check changes at most the fields \<open>RH\<close> and \<open>Tf\<close> of a sample: the
  result has the \<open>pin\<close>, \<open>type\<close> and \<open>time_stamp\<close> of the sample given, and is that
  sample with some values for \<open>RH\<close> and \<open>Tf\<close>; when the history holds fewer than
  \<open>num_min_history\<close> entries the result is the sample given.
\<close>

theorem check_values_frame_effect:
  "pin (check_values ops self info) = pin info \<and>
   type (check_values ops self info) = type info \<and>
   time_stamp (check_values ops self info) = time_stamp info \<and>
   (\<exists>h f. check_values ops self info = info\<lparr>RH := h, Tf := f\<rparr>) \<and>
   (length (data_history self) < num_min_history self \<longrightarrow> check_values ops self info = info)"
proof -
  have "check_values ops self info =
      info\<lparr>RH := RH (check_values ops self info), Tf := Tf (check_values ops self info)\<rparr>"
    by (simp add: check_values_def Let_def)
  then have "\<exists>h f. check_values ops self info = info\<lparr>RH := h, Tf := f\<rparr>" by blast
  then show ?thesis
    by (simp add: check_values_def Let_def)
qed

theorem check_values_frame_effect_witness:
  "length (data_history (channel_with [sample_at 50 70 1]))
     < num_min_history (channel_with [sample_at 50 70 1]) \<and>
   check_values exact_ops (channel_with [sample_at 50 70 1]) (sample_at 90 10 2)
     = sample_at 90 10 2 \<and>
   pin (check_values exact_ops (channel_with ten_samples) (sample_at 90 10 11)) = 4 \<and>
   type (check_values exact_ops (channel_with ten_samples) (sample_at 90 10 11)) = ''sample'' \<and>
   time_stamp (check_values exact_ops (channel_with ten_samples) (sample_at 90 10 11)) = 11"
  using check_values_frame_effect [where ops = exact_ops
      and self = "channel_with [sample_at 50 70 1]" and info = "sample_at 90 10 2"]
    check_values_frame_effect [where ops = exact_ops and self = "channel_with ten_samples"
      and info = "sample_at 90 10 11"]
  by (simp add: channel_with_def Channel_init_def) (simp add: sample_at_def)

section \<open>The coordinator\<close>

lemma ready_loop_exit:
  "\<not> (te < time_wait_max \<and> \<not> ok) \<Longrightarrow>
   ready_loop n t0 obs chans te ok cr = Some (chans, ok, cr)"
  by (cases obs) auto

lemma ready_loop_timeout:
  "list_all (\<lambda>(seen, clock). clock - t0 < time_wait_max \<and> count_with_data seen \<noteq> n) before \<Longrightarrow>
   te < time_wait_max \<Longrightarrow> count_with_data last_seen \<noteq> n \<Longrightarrow>
   time_wait_max \<le> last_clock - t0 \<Longrightarrow>
   ready_loop n t0 (before @ (last_seen, last_clock) # rest) chans te False cr =
     Some (last_seen, False, Some (count_with_data last_seen))"
proof (induction before arbitrary: chans te cr)
  case Nil
  then show ?case
    by (simp add: ready_loop_exit count_with_data_def)
next
  case (Cons ob before)
  obtain seen clock where ob: "ob = (seen, clock)" by (cases ob)
  from Cons.prems(1) have 1: "clock - t0 < time_wait_max" "count_with_data seen \<noteq> n"
    and 2: "list_all (\<lambda>(seen, clock). clock - t0 < time_wait_max \<and> count_with_data seen \<noteq> n) before"
    by (simp_all add: ob)
  from Cons.IH [OF 2 1(1) Cons.prems(3,4)] 1 Cons.prems(2)
  show ?case
    by (simp add: ob count_with_data_def)
qed

lemma ready_loop_ok:
  "ready_loop n t0 obs chans te ok cr = Some (chans', True, cr') \<Longrightarrow>
   (ok \<longrightarrow> count_with_data chans = n \<and> chans \<in> insert c0 (fst ` set obs0)) \<Longrightarrow>
   set obs \<subseteq> set obs0 \<Longrightarrow>
   count_with_data chans' = n \<and> chans' \<in> insert c0 (fst ` set obs0)"
proof (induction obs arbitrary: chans te ok cr)
  case Nil
  then show ?case by (auto split: if_splits)
next
  case (Cons ob obs)
  obtain seen clock where ob: "ob = (seen, clock)" by (cases ob)
  show ?case
  proof (cases "te < time_wait_max \<and> \<not> ok")
    case True
    let ?ok = "if count_with_data seen = n then True else ok"
    from Cons.prems(1) True
    have r: "ready_loop n t0 obs seen (clock - t0) ?ok (Some (count_with_data seen)) =
             Some (chans', True, cr')"
      by (auto simp: ob count_with_data_def Let_def split: if_splits)
    have "seen \<in> fst ` set obs0" using Cons.prems(3) ob by force
    then have i: "?ok \<longrightarrow> count_with_data seen = n \<and> seen \<in> insert c0 (fst ` set obs0)"
      using True by simp
    from Cons.prems(3) have "set obs \<subseteq> set obs0" by simp
    from Cons.IH [OF r i this] show ?thesis .
  next
    case False
    with Cons.prems(1) have "chans' = chans" "ok"
      by (simp_all add: ready_loop_exit)
    with Cons.prems(2) show ?thesis by simp
  qed
qed

lemma count_all:
  "count_with_data chans = length chans \<Longrightarrow> list_all (\<lambda>c. data_latest c \<noteq> None) chans"
  using sum_length_filter_compl [of "\<lambda>c. data_latest c \<noteq> None" chans]
  by (simp add: count_with_data_def list_all_iff filter_empty_conv)

text \<open>
  C6. Let the readiness loop of \<^verbatim>\<open>collect_data\<close> poll \<open>N\<close> channels, and let no poll made
  before 30 seconds have elapsed find all of them with a latest sample. If the poll at
  which the 30 seconds are found elapsed counts \<open>k < N\<close> channels with a latest sample,
  the start fails with the error that carries \<open>k\<close> and \<open>N\<close>, after \<^verbatim>\<open>stop\<close> has been
  called on each of the \<open>N\<close> channels. Conversely the start gets past the readiness loop
  only with a poll that found a latest sample in every channel.
\<close>

theorem readiness_timeout:
  "(list_all (\<lambda>(seen, clock). clock - time_zero < 30 \<and> count_with_data seen \<noteq> length channels)
      before \<and>
    30 \<le> last_clock - time_zero \<and>
    count_with_data last_seen = k \<and> k < length channels \<and>
    length last_seen = length channels \<longrightarrow>
      wait_for_channels channels time_zero (before @ (last_seen, last_clock) # rest) =
        Some (Inl (OnlyReady k (length channels)), stop_all_channels last_seen) \<and>
      length (stop_all_channels last_seen) = length channels \<and>
      list_all (\<lambda>c. \<not> keep_running c) (stop_all_channels last_seen)) \<and>
   (wait_for_channels channels time_zero observations = Some (Inr (), channels') \<and>
    list_all (\<lambda>(seen, clock). length seen = length channels) observations \<longrightarrow>
      list_all (\<lambda>c. data_latest c \<noteq> None) channels' \<and>
      channels' \<in> fst ` set observations) \<and>
   time_wait_max = 30"
proof (intro conjI impI)
  assume a: "list_all (\<lambda>(seen, clock). clock - time_zero < 30 \<and>
        count_with_data seen \<noteq> length channels) before \<and>
    30 \<le> last_clock - time_zero \<and>
    count_with_data last_seen = k \<and> k < length channels \<and>
    length last_seen = length channels"
  then have "ready_loop (length channels) time_zero (before @ (last_seen, last_clock) # rest)
        channels 0 False None = Some (last_seen, False, Some k)"
    using ready_loop_timeout [of time_zero "length channels" before 0 last_seen last_clock rest
        channels None]
    by (simp add: time_wait_max_def)
  then show "wait_for_channels channels time_zero (before @ (last_seen, last_clock) # rest) =
        Some (Inl (OnlyReady k (length channels)), stop_all_channels last_seen)"
    by (simp add: wait_for_channels_def)
  from a show "length (stop_all_channels last_seen) = length channels"
    by (simp add: stop_all_channels_def)
  show "list_all (\<lambda>c. \<not> keep_running c) (stop_all_channels last_seen)"
    by (simp add: stop_all_channels_def stop_def list_all_iff)
next
  assume b: "wait_for_channels channels time_zero observations = Some (Inr (), channels') \<and>
    list_all (\<lambda>(seen, clock). length seen = length channels) observations"
  then obtain cr where r: "ready_loop (length channels) time_zero observations channels 0 False
      None = Some (channels', True, cr)"
    by (auto simp: wait_for_channels_def split: option.splits if_splits)
  have ne: "observations \<noteq> []"
    using r by (auto simp: time_wait_max_def)
  obtain seen clock rest where o: "observations = (seen, clock) # rest"
    using ne by (cases observations) auto
  let ?ok = "if count_with_data seen = length channels then True else False"
  from r have r': "ready_loop (length channels) time_zero rest seen (clock - time_zero) ?ok
      (Some (count_with_data seen)) = Some (channels', True, cr)"
    by (auto simp: o time_wait_max_def count_with_data_def Let_def split: if_splits)
  have i: "?ok \<longrightarrow> count_with_data seen = length channels \<and>
      seen \<in> insert seen (fst ` set observations)"
    by simp
  have s: "set rest \<subseteq> set observations" by (auto simp: o)
  from ready_loop_ok [OF r' i s]
  have c: "count_with_data channels' = length channels"
    and m: "channels' \<in> fst ` set observations"
    by (auto simp: o)
  from m b have "length channels' = length channels"
    by (auto simp: list_all_iff)
  with c show "list_all (\<lambda>c. data_latest c \<noteq> None) channels'"
    by (intro count_all) simp
  from m show "channels' \<in> fst ` set observations" .
next
  show "time_wait_max = 30" by (simp add: time_wait_max_def)
qed

theorem readiness_timeout_witness:
  "wait_for_channels [channel_with [], channel_with []] 0
     [([waiting_channel, waiting_channel], 10), ([ready_channel, waiting_channel], 31),
      ([ready_channel, ready_channel], 32)] =
     Some (Inl (OnlyReady 1 2), [stop ready_channel, stop waiting_channel]) \<and>
   \<not> keep_running (stop ready_channel) \<and> \<not> keep_running (stop waiting_channel) \<and>
   wait_for_channels [channel_with [], channel_with []] 0
     [([waiting_channel, waiting_channel], 10), ([ready_channel, ready_channel], 20)] =
     Some (Inr (), [ready_channel, ready_channel]) \<and>
   data_latest ready_channel \<noteq> None"
proof -
  have w: "wait_for_channels [channel_with [], channel_with []] 0
     [([waiting_channel, waiting_channel], 10), ([ready_channel, ready_channel], 20)] =
     Some (Inr (), [ready_channel, ready_channel])"
    by (simp add: wait_for_channels_def time_wait_max_def ready_channel_def waiting_channel_def
        channel_with_def Channel_init_def)
  from readiness_timeout [of 0 "[channel_with [], channel_with []]"
         "[([waiting_channel, waiting_channel], 10)]" 31 "[ready_channel, waiting_channel]" 1
         "[([ready_channel, ready_channel], 32)]"
         "[([waiting_channel, waiting_channel], 10), ([ready_channel, ready_channel], 20)]"
         "[ready_channel, ready_channel]"]
       w
  show ?thesis
    by (simp add: count_with_data_def stop_all_channels_def ready_channel_def
        waiting_channel_def stop_def channel_with_def Channel_init_def)
qed

section \<open>Saving a batch\<close>

lemma drain_loop_eq: "drain_loop xs acc = acc @ xs"
  by (induction xs arbitrary: acc) auto

lemma sorted_hd_Min:
  "xs \<noteq> [] \<Longrightarrow> sorted (map f xs) \<Longrightarrow> f (hd xs) = Min (f ` set xs)"
proof -
  assume a: "xs \<noteq> []" "sorted (map f xs)"
  then obtain x ys where xs: "xs = x # ys" by (cases xs) auto
  with a(2) have "\<forall>y\<in>set ys. f x \<le> f y" by simp
  then have "Min (insert (f x) (f ` set ys)) = f x"
    by (intro Min_eqI) auto
  then show ?thesis by (simp add: xs)
qed

text \<open>
  C8, as the program behaves. A pass of the main loop that finds the queue non-empty
  empties it and writes the whole batch with one call of \<^verbatim>\<open>io.write\<close>, to the file
  \<^verbatim>\<open>data-<time>.yml\<close> in the data directory, where \<^verbatim>\<open><time>\<close> is the time stamp of
  the first sample taken from the queue, in the zone of Los Angeles and the format
  \<^verbatim>\<open>%Y-%m-%d %H-%M-%S\<close>. A pass that finds the queue empty writes nothing. That first
  time stamp is the earliest of the batch when the queue holds the samples in the order
  of their time stamps.
\<close>

theorem batch_file_name:
  "(items q \<noteq> [] \<longrightarrow>
      collect_once strftime_LAX path_data q files =
        (q\<lparr>items := []\<rparr>,
         files @ [(path_join path_data
                     (''data-'' @ strftime_LAX ''%Y-%m-%d %H-%M-%S'' (time_stamp (hd (items q)))
                        @ ''.yml''),
                   items q)])) \<and>
   (items q = [] \<longrightarrow> collect_once strftime_LAX path_data q files = (q, files)) \<and>
   (items q \<noteq> [] \<and> sorted (map time_stamp (items q)) \<longrightarrow>
      first_time_stamp (drain_loop (items q) []) = Min (time_stamp ` set (items q)))"
proof (intro conjI impI)
  assume "items q \<noteq> []"
  then show "collect_once strftime_LAX path_data q files =
        (q\<lparr>items := []\<rparr>,
         files @ [(path_join path_data
                     (''data-'' @ strftime_LAX ''%Y-%m-%d %H-%M-%S'' (time_stamp (hd (items q)))
                        @ ''.yml''),
                   items q)])"
    by (simp add: collect_once_def drain_loop_eq first_time_stamp_def reformat_timestamp_def
        hd_conv_nth Let_def)
next
  assume "items q = []"
  then show "collect_once strftime_LAX path_data q files = (q, files)"
    by (simp add: collect_once_def)
next
  assume "items q \<noteq> [] \<and> sorted (map time_stamp (items q))"
  then show "first_time_stamp (drain_loop (items q) []) = Min (time_stamp ` set (items q))"
    using sorted_hd_Min [of "items q" time_stamp]
    by (simp add: drain_loop_eq first_time_stamp_def hd_conv_nth)
qed

theorem batch_file_name_witness:
  "items (Queue_init 100\<lparr>items := [sample_at 50 70 1, sample_at 51 71 2]\<rparr>) \<noteq> [] \<and>
   sorted (map time_stamp (items (Queue_init 100\<lparr>items := [sample_at 50 70 1, sample_at 51 71 2]\<rparr>))) \<and>
   collect_once strftime_table ''/data''
       (Queue_init 100\<lparr>items := [sample_at 50 70 1, sample_at 51 71 2]\<rparr>) [] =
     (Queue_init 100,
      [(''/data/data-1969-12-31 16-00-01.yml'', [sample_at 50 70 1, sample_at 51 71 2])]) \<and>
   collect_once strftime_table ''/data'' (Queue_init 100) [] = (Queue_init 100, []) \<and>
   Min (time_stamp ` set [sample_at 50 70 1, sample_at 51 71 2]) = 1"
proof -
  have i: "items (Queue_init 100\<lparr>items := [sample_at 50 70 1, sample_at 51 71 2]\<rparr>) \<noteq> []"
    and s: "sorted (map time_stamp
        (items (Queue_init 100\<lparr>items := [sample_at 50 70 1, sample_at 51 71 2]\<rparr>)))"
    and e: "items (Queue_init 100) = []"
    by (simp_all add: Queue_init_def sample_at_def)
  from batch_file_name [of "Queue_init 100\<lparr>items := [sample_at 50 70 1, sample_at 51 71 2]\<rparr>"
         strftime_table "''/data''" "[]"]
       batch_file_name [of "Queue_init 100" strftime_table "''/data''" "[]"]
       i s e
  show ?thesis
    by (simp add: drain_loop_eq first_time_stamp_def)
      (simp add: Queue_init_def sample_at_def strftime_table_def path_join_def)
qed

text \<open>
  C8, as stated, fails: when the queue holds a sample stamped 2 ahead of a sample stamped
  1 (two channels that stamped their samples in one order and published them in the
  other), the batch is written under the name of second 2, and the earliest time stamp
  of the batch is 1.
\<close>

theorem batch_key_counterexample:
  "collect_once strftime_table ''/data''
       (Queue_init 100\<lparr>items := [sample_at 50 70 2, sample_at 51 71 1]\<rparr>) [] =
     (Queue_init 100,
      [(''/data/data-1969-12-31 16-00-02.yml'', [sample_at 50 70 2, sample_at 51 71 1])]) \<and>
   first_time_stamp (drain_loop [sample_at 50 70 2, sample_at 51 71 1] []) = 2 \<and>
   Min (time_stamp ` set [sample_at 50 70 2, sample_at 51 71 1]) = 1"
  by (simp add: collect_once_def first_time_stamp_def reformat_timestamp_def Let_def)
    (simp add: Queue_init_def sample_at_def strftime_table_def path_join_def)

end
